theory Spec2Isabelle
  imports Complex_Main
begin

section \<open>The classifier service of AgriGasha\<close>

text \<open>
  The service is one class with two static fields (the cached model handle and the label
  table) and two asynchronous static methods, \<open>loadModel\<close> and \<open>classifyImage\<close>.
  Everything else it touches is an external collaborator: the TFLite runtime on
  \<open>window.tflite\<close>, the tensor library on \<open>window.tf\<close>, the network and the image
  decoder of the browser.

  The embedding is explicit state passing. A promise that rejects is a value \<open>Inl e\<close>, a
  promise that resolves is \<open>Inr v\<close>. Every outcome of an external call that the code can
  observe is a field of the record \<open>env\<close>, so that a theorem quantified over \<open>env\<close> holds for
  every behaviour of the collaborators. Every external promise is taken to settle.

  Numbers read from the output tensor are modelled as reals. A typed array holds 32-bit
  floats or integers, and the product of such a number with 100 is exact in double
  precision, so for finite values \<open>Math.round (maxProb * 100)\<close> is the real
  \<open>round (maxProb * 100)\<close> (round half up, \<open>\<lfloor>x + 1/2\<rfloor>\<close>). NaN and the infinities are left out.
\<close>

subsection \<open>Data\<close>

datatype error = Error string

datatype handle = Handle nat

datatype array_buffer = ArrayBuffer "nat list"

datatype image = ImageElement string

datatype dtype = Int32 | Float32

record tensor =
  dtype :: dtype
  shape :: "nat list"
  vals :: "real list"

record response =
  ok :: bool
  statusText :: string
  arrayBuffer :: "error + array_buffer"

text \<open>
  The environment of one call. \<open>tflite_loaded\<close> is the truth value of \<open>window.tflite\<close> at the
  first test and \<open>tflite_loaded_late\<close> its truth value after the 500 ms wait; \<open>image_load\<close> tells
  whether the image element fires \<open>onload\<close> (True) or \<open>onerror\<close> (False); an \<open>error option\<close> is
  \<open>None\<close> when the call returns normally.
\<close>

record env =
  tflite_loaded :: bool
  tflite_loaded_late :: bool
  setWasmPath :: "string \<Rightarrow> error option"
  fetch :: "string \<Rightarrow> error + response"
  loadTFLiteModel :: "array_buffer \<Rightarrow> error + handle"
  image_load :: "string \<Rightarrow> bool"
  tf_loaded :: bool
  fromPixels :: "image \<Rightarrow> error + tensor"
  resizeBilinear :: "tensor \<Rightarrow> nat \<times> nat \<Rightarrow> error + tensor"
  predict :: "handle \<Rightarrow> tensor \<Rightarrow> error + tensor"
  data :: "tensor \<Rightarrow> error + real list"
  dispose :: "tensor \<Rightarrow> error option"

text \<open>
  The calls into the collaborators that change something outside the service, in the order
  they happen. \<open>Tidy t\<close> records that \<open>tf.tidy\<close> returned the per-call input tensor \<open>t\<close>.
\<close>

datatype event =
    Wait nat
  | SetWasmPath string
  | Fetch string
  | LoadTFLiteModel array_buffer
  | Tidy tensor
  | Predict handle tensor
  | Dispose tensor

text \<open>
  The static fields of the class, and the trace of external calls. \<open>model = None\<close> is the
  initial \<open>null\<close>. The label of a result is \<open>None\<close> where JavaScript yields \<open>undefined\<close>
  (an array read out of range).
\<close>

record state =
  model :: "handle option"
  labels :: "string list"
  trace :: "event list"

record result =
  label :: "string option"
  confidence :: int

definition init :: state where
  "init = \<lparr>model = None,
           labels = [''Coffee Rust'', ''Maize Streak'', ''Wheat Rust'', ''Healthy''],
           trace = []\<rparr>"

definition emit :: "event \<Rightarrow> state \<Rightarrow> state" where
  "emit e s = s\<lparr>trace := trace s @ [e]\<rparr>"

definition TFLITE_VERSION :: string where
  "TFLITE_VERSION = ''0.0.1-alpha.10''"

definition wasm_path :: string where
  "wasm_path = ''https://cdn.jsdelivr.net/npm/@tensorflow/tfjs-tflite@'' @ TFLITE_VERSION @ ''/dist/''"

definition default_model_url :: string where
  "default_model_url =
     ''https://storage.googleapis.com/tfjs-models/tflite/mobilenet_v1_1.0_224_quant.tflite''"

subsection \<open>loadModel\<close>

text \<open>Lines 25 to 29: the runtime test, with one retry after 500 ms.\<close>

definition await_tflite :: "env \<Rightarrow> state \<Rightarrow> state \<times> (error + unit)" where
  "await_tflite e s =
     (if \<not> tflite_loaded e then
        (let s1 = emit (Wait 500) s in
         if \<not> tflite_loaded_late e then (s1, Inl (Error ''TFLite library not loaded from CDN''))
         else (s1, Inr ()))
      else (s, Inr ()))"

text \<open>Lines 31 to 42: fetch the artifact, build the model, store the handle.\<close>

definition fetch_and_build :: "env \<Rightarrow> string \<Rightarrow> state \<Rightarrow> state \<times> (error + handle)" where
  "fetch_and_build e modelUrl s =
     (let s1 = emit (SetWasmPath wasm_path) s in
      case setWasmPath e wasm_path of
        Some err \<Rightarrow> (s1, Inl err)
      | None \<Rightarrow>
          (let s2 = emit (Fetch modelUrl) s1 in
           case fetch e modelUrl of
             Inl err \<Rightarrow> (s2, Inl err)
           | Inr resp \<Rightarrow>
               if \<not> ok resp then (s2, Inl (Error (''Failed to fetch model: '' @ statusText resp)))
               else
                 (case arrayBuffer resp of
                    Inl err \<Rightarrow> (s2, Inl err)
                  | Inr modelBuffer \<Rightarrow>
                      (let s3 = emit (LoadTFLiteModel modelBuffer) s2 in
                       case loadTFLiteModel e modelBuffer of
                         Inl err \<Rightarrow> (s3, Inl err)
                       | Inr h \<Rightarrow> (s3\<lparr>model := Some h\<rparr>, Inr h)))))"

text \<open>
  The body of the \<open>try\<close> of \<open>loadModel\<close>. Its \<open>catch\<close> logs and throws the same error again,
  so the outcome of the body is the outcome of the method.
\<close>

definition loadModel_try :: "env \<Rightarrow> string \<Rightarrow> state \<Rightarrow> state \<times> (error + handle)" where
  "loadModel_try e modelUrl s =
     (case await_tflite e s of
        (s1, Inl err) \<Rightarrow> (s1, Inl err)
      | (s1, Inr _) \<Rightarrow> fetch_and_build e modelUrl s1)"

definition loadModel :: "env \<Rightarrow> string \<Rightarrow> state \<Rightarrow> state \<times> (error + handle)" where
  "loadModel e modelUrl s =
     (case model s of
        Some h \<Rightarrow> (s, Inr h)
      | None \<Rightarrow>
          (case loadModel_try e modelUrl s of
             (s1, Inl err) \<Rightarrow> (s1, Inl err)
           | (s1, Inr h) \<Rightarrow> (s1, Inr h)))"

subsection \<open>classifyImage\<close>

text \<open>The tensor operations of lines 74 to 76, on the shape and the values.\<close>

definition expandDims :: "tensor \<Rightarrow> nat \<Rightarrow> tensor" where
  "expandDims t axis = t\<lparr>shape := take axis (shape t) @ [1] @ drop axis (shape t)\<rparr>"

definition toFloat :: "tensor \<Rightarrow> tensor" where
  "toFloat t = t\<lparr>dtype := Float32\<rparr>"

definition tensor_div :: "tensor \<Rightarrow> real \<Rightarrow> tensor" where
  "tensor_div t c = t\<lparr>vals := map (\<lambda>v. v / c) (vals t)\<rparr>"

definition tensor_sub :: "tensor \<Rightarrow> real \<Rightarrow> tensor" where
  "tensor_sub t c = t\<lparr>vals := map (\<lambda>v. v - c) (vals t)\<rparr>"

text \<open>Lines 70 to 77: the function passed to \<open>tf.tidy\<close>.\<close>

definition preprocess :: "env \<Rightarrow> image \<Rightarrow> error + tensor" where
  "preprocess e img =
     (case fromPixels e img of
        Inl err \<Rightarrow> Inl err
      | Inr tfImg \<Rightarrow>
          (case resizeBilinear e tfImg (224, 224) of
             Inl err \<Rightarrow> Inl err
           | Inr resized \<Rightarrow>
               (let expanded = expandDims resized 0 in
                Inr (tensor_sub (tensor_div (toFloat expanded) 127.5) 1))))"

text \<open>Lines 83 to 90: the loop over the output vector.\<close>

function argmax_loop :: "real list \<Rightarrow> nat \<Rightarrow> real \<times> nat \<Rightarrow> real \<times> nat" where
  "argmax_loop probabilities i (maxProb, maxIndex) =
     (if i < length probabilities then
        (if probabilities ! i > maxProb
         then argmax_loop probabilities (i + 1) (probabilities ! i, i)
         else argmax_loop probabilities (i + 1) (maxProb, maxIndex))
      else (maxProb, maxIndex))"
  by pat_completeness auto
termination
  by (relation "measure (\<lambda>(ps, i, _). length ps - i)") auto

declare argmax_loop.simps [simp del]

text \<open>An array read: \<open>undefined\<close> out of range.\<close>

definition js_index :: "'a list \<Rightarrow> nat \<Rightarrow> 'a option" where
  "js_index xs i = (if i < length xs then Some (xs ! i) else None)"

text \<open>
  Lines 80 to 98: the body of the inner \<open>try\<close>. With an empty label table the remainder is
  NaN and the read yields \<open>undefined\<close>; \<open>n mod 0 = n\<close> in HOL and \<open>js_index [] n = None\<close>.
\<close>

definition infer :: "env \<Rightarrow> state \<Rightarrow> tensor \<Rightarrow> state \<times> (error + result)" where
  "infer e s t =
     (case model s of
        None \<Rightarrow> (s, Inl (Error ''TypeError''))
      | Some h \<Rightarrow>
          (let s1 = emit (Predict h t) s in
           case predict e h t of
             Inl err \<Rightarrow> (s1, Inl err)
           | Inr outputTensor \<Rightarrow>
               (case data e outputTensor of
                  Inl err \<Rightarrow> (s1, Inl err)
                | Inr probabilities \<Rightarrow>
                    (case argmax_loop probabilities 0 (0, 0) of
                       (maxProb, maxIndex) \<Rightarrow>
                         (s1, Inr \<lparr>label = js_index (labels s1) (maxIndex mod length (labels s1)),
                                   confidence = round (maxProb * 100)\<rparr>)))))"

text \<open>
  Lines 79 to 101: the inner \<open>try\<close> with its \<open>finally\<close>. The tensor is disposed on every
  outcome of the body; an error thrown by \<open>dispose\<close> replaces the outcome.
\<close>

definition infer_finally :: "env \<Rightarrow> state \<Rightarrow> tensor \<Rightarrow> state \<times> (error + result)" where
  "infer_finally e s t =
     (case infer e s t of
        (s1, r) \<Rightarrow>
          (let s2 = emit (Dispose t) s1 in
           case dispose e t of
             Some err \<Rightarrow> (s2, Inl err)
           | None \<Rightarrow> (s2, r)))"

text \<open>Lines 55 to 57: load the model when the handle is not there.\<close>

definition ensure_model :: "env \<Rightarrow> state \<Rightarrow> state \<times> (error + unit)" where
  "ensure_model e s =
     (if model s = None then
        (case loadModel e default_model_url s of
           (s1, Inl err) \<Rightarrow> (s1, Inl err)
         | (s1, Inr _) \<Rightarrow> (s1, Inr ()))
      else (s, Inr ()))"

text \<open>Lines 55 to 101: the body of the outer \<open>try\<close>.\<close>

definition classifyImage_try :: "env \<Rightarrow> string \<Rightarrow> state \<Rightarrow> state \<times> (error + result)" where
  "classifyImage_try e imageSrc s =
     (case ensure_model e s of
        (s1, Inl err) \<Rightarrow> (s1, Inl err)
      | (s1, Inr _) \<Rightarrow>
          if \<not> image_load e imageSrc
          then (s1, Inl (Error ''Failed to load image for classification''))
          else if \<not> tf_loaded e then (s1, Inl (Error ''TFJS not loaded''))
          else
            (case preprocess e (ImageElement imageSrc) of
               Inl err \<Rightarrow> (s1, Inl err)
             | Inr t \<Rightarrow> infer_finally e (emit (Tidy t) s1) t))"

definition fallback :: result where
  "fallback = \<lparr>label = Some ''Healthy'', confidence = 0\<rparr>"

text \<open>Lines 53 to 107: the outer \<open>catch\<close> turns every error into the fallback result.\<close>

definition classifyImage :: "env \<Rightarrow> string \<Rightarrow> state \<Rightarrow> state \<times> (error + result)" where
  "classifyImage e imageSrc s =
     (case classifyImage_try e imageSrc s of
        (s1, Inl err) \<Rightarrow> (s1, Inr fallback)
      | (s1, Inr r) \<Rightarrow> (s1, Inr r))"

subsection \<open>A fake runtime\<close>

text \<open>
  A fake environment for concrete runs: the runtime and the tensor library are there, the
  fetch answers 200, every image decodes to two by two grey pixels, the resize answers with
  a grey tensor of the size it is asked for, and the model answers every input with the
  output vector \<open>v\<close>.
\<close>

definition fake_handle :: handle where
  "fake_handle = Handle 1"

definition fake_pixels :: tensor where
  "fake_pixels = \<lparr>dtype = Int32, shape = [2, 2, 3], vals = replicate 12 51\<rparr>"

definition fake_resize :: "tensor \<Rightarrow> nat \<times> nat \<Rightarrow> tensor" where
  "fake_resize t newSize =
     (case newSize of
        (newHeight, newWidth) \<Rightarrow>
          \<lparr>dtype = Float32, shape = [newHeight, newWidth, 3],
           vals = replicate (newHeight * newWidth * 3) 51\<rparr>)"

definition fake_env :: "real list \<Rightarrow> env" where
  "fake_env v =
     \<lparr>tflite_loaded = True,
      tflite_loaded_late = True,
      setWasmPath = (\<lambda>_. None),
      fetch = (\<lambda>_. Inr \<lparr>ok = True, statusText = ''OK'', arrayBuffer = Inr (ArrayBuffer [1, 2, 3])\<rparr>),
      loadTFLiteModel = (\<lambda>_. Inr fake_handle),
      image_load = (\<lambda>_. True),
      tf_loaded = True,
      fromPixels = (\<lambda>_. Inr fake_pixels),
      resizeBilinear = (\<lambda>t newSize. Inr (fake_resize t newSize)),
      predict = (\<lambda>_ _. Inr \<lparr>dtype = Float32, shape = [1, length v], vals = v\<rparr>),
      data = (\<lambda>t. Inr (vals t)),
      dispose = (\<lambda>_. None)\<rparr>"

definition no_runtime_env :: env where
  "no_runtime_env = (fake_env [])\<lparr>tflite_loaded := False, tflite_loaded_late := False\<rparr>"

definition offline_env :: env where
  "offline_env = (fake_env [])\<lparr>fetch := (\<lambda>_. Inl (Error ''Failed to fetch''))\<rparr>"

definition not_found_env :: env where
  "not_found_env =
     (fake_env [])\<lparr>fetch := (\<lambda>_. Inr \<lparr>ok = False, statusText = ''Not Found'',
                                         arrayBuffer = Inr (ArrayBuffer [])\<rparr>)\<rparr>"

definition broken_image_env :: env where
  "broken_image_env = (fake_env [])\<lparr>image_load := (\<lambda>_. False)\<rparr>"




subsection \<open>Sequences of calls\<close>

text \<open>
  A process is a sequence of calls of the two public methods, each with the environment it
  meets, starting from \<open>init\<close>.
\<close>

datatype call = LoadModel env string | ClassifyImage env string

fun perform :: "call \<Rightarrow> state \<Rightarrow> state" where
  "perform (LoadModel e modelUrl) s = fst (loadModel e modelUrl s)"
| "perform (ClassifyImage e imageSrc) s = fst (classifyImage e imageSrc s)"

definition run :: "call list \<Rightarrow> state \<Rightarrow> state" where
  "run calls s = fold perform calls s"


subsection \<open>Observations on the trace\<close>









subsection \<open>The specification's argmax\<close>



section \<open>The loop\<close>









section \<open>The service, step by step\<close>




lemmas load_defs = loadModel_def loadModel_try_def await_tflite_def fetch_and_build_def emit_def Let_def

lemma loadModel_labels: "labels (fst (loadModel e url s)) = labels s"
  by (auto simp: load_defs split: option.splits sum.splits prod.splits if_splits)


lemma loadModel_Inl: "loadModel e url s = (s1, Inl err) \<Longrightarrow> model s1 = None \<and> model s = None"
  by (auto simp: load_defs split: option.splits sum.splits prod.splits if_splits)


lemma ensure_model_labels: "labels (fst (ensure_model e s)) = labels s"
  using loadModel_labels [of e default_model_url s]
  by (auto simp: ensure_model_def split: prod.splits sum.splits)


lemma ensure_model_cached: "model s = Some h \<Longrightarrow> ensure_model e s = (s, Inr ())"
  by (simp add: ensure_model_def)

lemma ensure_model_keeps: "model s = Some h \<Longrightarrow> model (fst (ensure_model e s)) = Some h"
  by (simp add: ensure_model_def)



lemma infer_labels: "labels (fst (infer e s t)) = labels s"
  by (auto simp: infer_def emit_def Let_def split: option.splits sum.splits prod.splits)


lemma infer_finally_labels: "labels (fst (infer_finally e s t)) = labels s"
  using infer_labels [of e s t]
  by (auto simp: infer_finally_def emit_def Let_def split: option.splits prod.splits)






lemma classifyImage_fst: "fst (classifyImage e imageSrc s) = fst (classifyImage_try e imageSrc s)"
  by (auto simp: classifyImage_def split: prod.splits sum.splits)



lemma classifyImage_try_labels: "labels (fst (classifyImage_try e imageSrc s)) = labels s"
proof (cases "ensure_model e s")
  case (Pair s1 r)
  have l: "labels s1 = labels s" using ensure_model_labels [of e s] Pair by simp
  show ?thesis
    using Pair l infer_finally_labels [of e _ _]
    by (auto simp: classifyImage_try_def emit_def split: sum.splits)
qed

lemma classifyImage_labels: "labels (fst (classifyImage e imageSrc s)) = labels s"
  by (simp add: classifyImage_fst classifyImage_try_labels)

lemma perform_labels: "labels (perform c s) = labels s"
  by (cases c) (simp_all add: loadModel_labels classifyImage_labels)

lemma run_labels: "labels (run calls s) = labels s"
  unfolding run_def by (induction calls arbitrary: s) (simp_all add: perform_labels)

lemmas fake_defs = fake_env_def no_runtime_env_def offline_env_def not_found_env_def
  broken_image_env_def fake_handle_def fake_pixels_def fake_resize_def init_def
































section \<open>The claims\<close>

text \<open>
  C9. The label table is the fixed list of four entries Coffee Rust, Maize Streak, Wheat
  Rust, Healthy, in this order, and neither \<open>loadModel\<close> nor \<open>classifyImage\<close> changes it:
  each call leaves the field as it found it, and after any sequence of calls from the
  initial state the table is still that list.
\<close>

theorem label_table_fixed:
  "labels init = [''Coffee Rust'', ''Maize Streak'', ''Wheat Rust'', ''Healthy''] \<and>
   length (labels init) = 4 \<and>
   labels (fst (loadModel e modelUrl s)) = labels s \<and>
   labels (fst (classifyImage e imageSrc s)) = labels s \<and>
   labels (run calls init) = [''Coffee Rust'', ''Maize Streak'', ''Wheat Rust'', ''Healthy'']"
  by (simp add: loadModel_labels classifyImage_labels run_labels) (simp add: init_def)



text \<open>
  C6. Called directly with no handle cached, \<open>loadModel\<close> hands its failures to the caller.
  With the runtime absent at the first test and again after the one 500 ms wait it rejects
  with the error of line 28. With the runtime there, a fetch that rejects (network failure)
  rejects the call with the same error, and a response that is not ok rejects it with the
  error of line 35. In both fetch cases the call rejects whatever the runtime does, and
  the handle stays empty.
\<close>

theorem loadModel_propagates:
  "model s = None \<longrightarrow>
     (\<not> tflite_loaded e \<and> \<not> tflite_loaded_late e \<longrightarrow>
        loadModel e modelUrl s =
          (emit (Wait 500) s, Inl (Error ''TFLite library not loaded from CDN''))) \<and>
     ((tflite_loaded e \<or> tflite_loaded_late e) \<and> setWasmPath e wasm_path = None \<longrightarrow>
        (\<forall>err. fetch e modelUrl = Inl err \<longrightarrow> snd (loadModel e modelUrl s) = Inl err) \<and>
        (\<forall>resp. fetch e modelUrl = Inr resp \<and> \<not> ok resp \<longrightarrow>
           snd (loadModel e modelUrl s) =
             Inl (Error (''Failed to fetch model: '' @ statusText resp)))) \<and>
     (isl (fetch e modelUrl) \<or> (\<exists>resp. fetch e modelUrl = Inr resp \<and> \<not> ok resp) \<longrightarrow>
        isl (snd (loadModel e modelUrl s)) \<and> model (fst (loadModel e modelUrl s)) = None)"
  by (auto simp: load_defs split: option.splits sum.splits prod.splits if_splits)

theorem loadModel_propagates_witness:
  "model init = None \<and>
   loadModel no_runtime_env default_model_url init =
     (emit (Wait 500) init, Inl (Error ''TFLite library not loaded from CDN'')) \<and>
   snd (loadModel offline_env default_model_url init) = Inl (Error ''Failed to fetch'') \<and>
   snd (loadModel not_found_env default_model_url init) =
     Inl (Error ''Failed to fetch model: Not Found'') \<and>
   model (fst (loadModel not_found_env default_model_url init)) = None"
  using loadModel_propagates [of init no_runtime_env default_model_url]
    loadModel_propagates [of init offline_env default_model_url]
    loadModel_propagates [of init not_found_env default_model_url]
  by (simp add: fake_defs load_defs)



























end
